theory Spec2Isabelle
  imports Main "HOL-Library.Sublist"
begin

section \<open>The project detail page: data model\<close>

text \<open>
  The page controller \<^verbatim>\<open>ProjectPage\<close> (src/pages/ProjectPage.tsx) keeps a local copy of one
  project, derives the role of the current user from it, and guards two mutations
  (status change, deletion) by permission flags computed from that role.

  The page imports the types \<^verbatim>\<open>Project\<close> and \<^verbatim>\<open>User\<close>, the object
  \<^verbatim>\<open>projectService\<close> and the function \<^verbatim>\<open>getCurrentUserId\<close> from \<^verbatim>\<open>@/utils/api\<close>, whose
  text is not among the sources. Their shape is taken from the data model and the
  collaborator contracts of the specification, and from the fields the page reads; the
  handlers themselves are translated from the page.
\<close>

subsection \<open>Users and membership references\<close>

text \<open>
  Modelled from the spec: the type \<^verbatim>\<open>User\<close> of \<^verbatim>\<open>@/utils/api\<close> ("identifier plus
  display attributes"). The page reads its fields \<^verbatim>\<open>_id\<close> and \<^verbatim>\<open>id\<close>; either may be
  absent (\<^verbatim>\<open>undefined\<close>), which is \<open>None\<close>. The field \<open>uscore_id\<close> is the source's
  \<^verbatim>\<open>_id\<close>, the field \<open>plain_id\<close> is the source's \<^verbatim>\<open>id\<close>; \<open>display\<close> stands for the
  display attributes, which the page only hands on to the avatar group.
\<close>

record user =
  uscore_id :: "string option"
  plain_id :: "string option"
  display :: string

text \<open>
  Modelled from the spec: the type of \<^verbatim>\<open>Project.owner\<close> and of the elements of
  \<^verbatim>\<open>Project.admins\<close> and \<^verbatim>\<open>Project.team\<close> ("either a bare identifier or an embedded user
  record", "a tagged union {Identifier | EmbeddedUser}"). The page tells the two apart by
  \<^verbatim>\<open>typeof x === 'object'\<close>. The union has no null reference.
\<close>

datatype member_ref = Bare string | Embedded user

text \<open>
  JavaScript truthiness of an optional string: \<^verbatim>\<open>undefined\<close> and the empty string are
  falsy, every other string is truthy.
\<close>

fun truthy :: "string option \<Rightarrow> bool" where
  "truthy None = False"
| "truthy (Some s) = (s \<noteq> [])"

text \<open>The operator \<^verbatim>\<open>a || b\<close> on optional strings: \<open>a\<close> when it is truthy, else \<open>b\<close>.\<close>

definition js_or :: "string option \<Rightarrow> string option \<Rightarrow> string option" where
  "js_or a b = (if truthy a then a else b)"

text \<open>The expression \<^verbatim>\<open>u._id || u.id\<close>, which the page writes out at six places.\<close>

definition user_key :: "user \<Rightarrow> string option" where
  "user_key u = js_or (uscore_id u) (plain_id u)"

text \<open>
  The expression \<^verbatim>\<open>typeof x === 'object' ? (x._id || x.id) : x\<close> of \<^verbatim>\<open>loadProject\<close>.
\<close>

fun normalize_ref :: "member_ref \<Rightarrow> string option" where
  "normalize_ref (Embedded u) = user_key u"
| "normalize_ref (Bare s) = Some s"

subsection \<open>Projects\<close>

text \<open>
  The three status literals of the page; \<open>Archive\<close> is the literal \<^verbatim>\<open>'Archiv\<close>e-acute\<^verbatim>\<open>'\<close>.
\<close>

datatype status = Actif | Inactif | Archive

text \<open>
  Modelled from the spec: the type \<^verbatim>\<open>Project\<close> of \<^verbatim>\<open>@/utils/api\<close> (identifier, name,
  optional description, status, owner, admins, team).
  The field \<open>proj_uscore_id\<close> is the source's \<^verbatim>\<open>_id\<close>. The page tests
  \<^verbatim>\<open>Array.isArray\<close> on \<^verbatim>\<open>admins\<close> and \<^verbatim>\<open>team\<close> before reading them: \<open>None\<close> is a value
  that is not an array.
\<close>

record project =
  proj_uscore_id :: string
  name :: string
  description :: "string option"
  status :: status
  owner :: member_ref
  admins :: "member_ref list option"
  team :: "member_ref list option"

datatype role = Owner | Admin | Team

subsection \<open>Collaborators and their effects\<close>

text \<open>
  A rejected request carries an error object, of which the page reads
  \<^verbatim>\<open>error.response?.data?.message\<close>: each link of the chain may be missing.
\<close>

datatype resp_data = RespData (message: "string option")
datatype response = Response (data_field: "resp_data option")
datatype api_error = ApiError (response: "response option")

text \<open>
  Modelled from the spec: the object \<^verbatim>\<open>projectService\<close> of \<^verbatim>\<open>@/utils/api\<close>, by its
  contract (\<^verbatim>\<open>getById(id) -> Project\<close>, \<^verbatim>\<open>update(id, partialFields)\<close>, \<^verbatim>\<open>delete(id)\<close>,
  each of which may fail). Each request either rejects with an error (\<open>Inl\<close>) or resolves
  (\<open>Inr\<close>). The page sends \<^verbatim>\<open>{ status }\<close> as the fields of an update, and ignores what
  \<^verbatim>\<open>update\<close> and \<^verbatim>\<open>delete\<close> resolve to.
\<close>

record projectService =
  getById :: "string \<Rightarrow> api_error + project"
  update_svc :: "string \<Rightarrow> status \<Rightarrow> api_error + unit"
  delete_svc :: "string \<Rightarrow> api_error + unit"

record toast =
  title :: string
  description :: string
  destructive :: bool

text \<open>
  What the page does to the outside, in the order it does it: requests to the data-access
  collaborator, notifications, the console, navigation.
\<close>

datatype event =
    CallGetById string
  | CallUpdate string status
  | CallDelete string
  | ShowToast toast
  | ConsoleError api_error
  | Navigate string

text \<open>The \<^verbatim>\<open>useState\<close> cells of the component, and the log of its effects.\<close>

record page =
  project :: "project option"
  isLoading :: bool
  createTicketOpen :: bool
  selectedTicketId :: "string option"
  teamDialogOpen :: bool
  editProjectOpen :: bool
  userRole :: "role option"
  events :: "event list"

text \<open>The state of a freshly mounted component.\<close>

definition initial_page :: page where
  "initial_page =
     \<lparr>project = None, isLoading = True, createTicketOpen = False, selectedTicketId = None,
      teamDialogOpen = False, editProjectOpen = False, userRole = None, events = []\<rparr>"

definition emit :: "event \<Rightarrow> page \<Rightarrow> page" where
  "emit e s = s\<lparr>events := events s @ [e]\<rparr>"

subsection \<open>Message texts\<close>

text \<open>
  The accented letters of the French texts, as their code points (one UTF-16 code unit
  each in the source's strings).
\<close>

definition e_acute :: char where "e_acute = CHR 0xE9"
definition e_grave :: char where "e_grave = CHR 0xE8"
definition dquote :: char where "dquote = CHR 0x22"

fun status_text :: "status \<Rightarrow> string" where
  "status_text Actif = ''Actif''"
| "status_text Inactif = ''Inactif''"
| "status_text Archive = ''Archiv'' @ [e_acute]"

definition acces_refuse :: string where
  "acces_refuse = ''Acc'' @ [e_grave] @ ''s refus'' @ [e_acute]"

definition proprietaire :: string where
  "proprietaire = ''Seul le propri'' @ [e_acute] @ ''taire peut ''"

section \<open>Role derivation and permission flags\<close>

text \<open>
  The chain of conditionals of \<^verbatim>\<open>loadProject\<close> (lines 58 to 78) that picks the argument
  of \<^verbatim>\<open>setUserRole\<close>; \<open>None\<close> is the source's \<^verbatim>\<open>null\<close>. \<^verbatim>\<open>Array.prototype.some\<close> is
  \<open>list_ex\<close>, and \<^verbatim>\<open>Array.isArray(ms) && ms.some(...)\<close> is \<open>some_member\<close>.

  Modelled from the spec: \<^verbatim>\<open>getCurrentUserId() -> identifier\<close> is synchronous and has no
  failure path, so the current user is a string, handed to the functions below as
  \<open>currentUserId\<close>.
\<close>

definition some_member :: "member_ref list option \<Rightarrow> string \<Rightarrow> bool" where
  "some_member ms currentUserId =
     (case ms of
        None \<Rightarrow> False
      | Some xs \<Rightarrow> list_ex (\<lambda>m. normalize_ref m = Some currentUserId) xs)"

definition derive_role :: "project \<Rightarrow> string \<Rightarrow> role option" where
  "derive_role data currentUserId =
     (let ownerId = normalize_ref (owner data) in
      if Some currentUserId = ownerId then Some Owner
      else if some_member (admins data) currentUserId then Some Admin
      else if some_member (team data) currentUserId then Some Team
      else None)"

definition isOwner :: "page \<Rightarrow> bool" where
  "isOwner s = (userRole s = Some Owner)"

definition canEditProject :: "page \<Rightarrow> bool" where
  "canEditProject s = isOwner s"

definition canDeleteProject :: "page \<Rightarrow> bool" where
  "canDeleteProject s = isOwner s"

definition canManageTeam :: "page \<Rightarrow> bool" where
  "canManageTeam s = isOwner s"

definition canCreateTicket :: "page \<Rightarrow> bool" where
  "canCreateTicket s = isOwner s"

definition canChangeStatus :: "page \<Rightarrow> bool" where
  "canChangeStatus s = isOwner s"

section \<open>The handlers\<close>

subsection \<open>loadProject\<close>

definition load_error_toast :: toast where
  "load_error_toast =
     \<lparr>title = ''Erreur'', description = ''Impossible de charger le projet'',
      destructive = True\<rparr>"

text \<open>
  \<open>id\<close> is the route parameter (\<^verbatim>\<open>useParams\<close>), possibly absent. The guard
  \<^verbatim>\<open>if (!id) return\<close> stands before the \<^verbatim>\<open>try\<close>, so the \<^verbatim>\<open>finally\<close> block does not
  run for it.
\<close>

definition loadProject :: "projectService \<Rightarrow> string \<Rightarrow> string option \<Rightarrow> page \<Rightarrow> page" where
  "loadProject svc currentUserId ident s =
     (case ident of
        None \<Rightarrow> s
      | Some i \<Rightarrow>
          if i = [] then s
          else
            let s1 = emit (CallGetById i) (s\<lparr>isLoading := True\<rparr>);
                s2 = (case getById svc i of
                        Inr data \<Rightarrow>
                          s1\<lparr>project := Some data, userRole := derive_role data currentUserId\<rparr>
                      | Inl err \<Rightarrow>
                          emit (Navigate ''/'')
                            (emit (ConsoleError err) (emit (ShowToast load_error_toast) s1)))
            in s2\<lparr>isLoading := False\<rparr>)"

subsection \<open>handleStatusChange\<close>

definition status_denied_toast :: toast where
  "status_denied_toast =
     \<lparr>title = acces_refuse,
      description = proprietaire @ ''modifier le statut du projet'',
      destructive = True\<rparr>"

definition status_changed_toast :: "status \<Rightarrow> toast" where
  "status_changed_toast st =
     \<lparr>title = ''Statut modifi'' @ [e_acute],
      description = ''Le projet est maintenant '' @ [dquote] @ status_text st @ [dquote] @ ''.'',
      destructive = False\<rparr>"

text \<open>\<^verbatim>\<open>error.response?.data?.message\<close>\<close>

definition server_message :: "api_error \<Rightarrow> string option" where
  "server_message err =
     (case response err of
        None \<Rightarrow> None
      | Some r \<Rightarrow> (case data_field r of None \<Rightarrow> None | Some d \<Rightarrow> message d))"

text \<open>\<^verbatim>\<open>error.response?.data?.message || fallback\<close>\<close>

definition errorMessage :: "api_error \<Rightarrow> string \<Rightarrow> string" where
  "errorMessage err fallback =
     (case js_or (server_message err) (Some fallback) of Some m \<Rightarrow> m | None \<Rightarrow> fallback)"

definition error_toast :: "string \<Rightarrow> toast" where
  "error_toast msg = \<lparr>title = ''Erreur'', description = msg, destructive = True\<rparr>"

definition handleStatusChange :: "projectService \<Rightarrow> status \<Rightarrow> page \<Rightarrow> page" where
  "handleStatusChange svc st s =
     (case project s of
        None \<Rightarrow> emit (ShowToast status_denied_toast) s
      | Some p \<Rightarrow>
          if \<not> canChangeStatus s then emit (ShowToast status_denied_toast) s
          else
            let s1 = emit (CallUpdate (proj_uscore_id p) st) s in
            (case update_svc svc (proj_uscore_id p) st of
               Inr _ \<Rightarrow>
                 emit (ShowToast (status_changed_toast st))
                   (s1\<lparr>project := Some (p\<lparr>status := st\<rparr>)\<rparr>)
             | Inl err \<Rightarrow>
                 emit (ShowToast
                   (error_toast (errorMessage err ''Impossible de modifier le statut''))) s1))"

subsection \<open>handleDelete\<close>

definition delete_denied_toast :: toast where
  "delete_denied_toast =
     \<lparr>title = acces_refuse,
      description = proprietaire @ ''supprimer le projet'',
      destructive = True\<rparr>"

definition deleted_toast :: "project \<Rightarrow> toast" where
  "deleted_toast p =
     \<lparr>title = ''Projet supprim'' @ [e_acute],
      description = ''Le projet '' @ [dquote] @ name p @ [dquote] @ '' a ''
                    @ [e_acute] @ ''t'' @ [e_acute] @ '' supprim'' @ [e_acute] @ ''.'',
      destructive = True\<rparr>"

definition handleDelete :: "projectService \<Rightarrow> page \<Rightarrow> page" where
  "handleDelete svc s =
     (case project s of
        None \<Rightarrow> emit (ShowToast delete_denied_toast) s
      | Some p \<Rightarrow>
          if \<not> canDeleteProject s then emit (ShowToast delete_denied_toast) s
          else
            let s1 = emit (CallDelete (proj_uscore_id p)) s in
            (case delete_svc svc (proj_uscore_id p) of
               Inr _ \<Rightarrow> emit (Navigate ''/'') (emit (ShowToast (deleted_toast p)) s1)
             | Inl err \<Rightarrow>
                 emit (ShowToast
                   (error_toast (errorMessage err ''Impossible de supprimer le projet''))) s1))"

subsection \<open>getMemberUsers\<close>

text \<open>
  One step of the three blocks of \<^verbatim>\<open>getMemberUsers\<close>: the accumulator is the pair of the
  array \<^verbatim>\<open>users\<close> and the set \<^verbatim>\<open>userIds\<close>. A bare identifier fails the test
  \<^verbatim>\<open>typeof m === 'object' && m\<close> and is passed over; an embedded record passes both
  conjuncts of it.
\<close>

fun add_member :: "member_ref \<Rightarrow> user list \<times> string option set \<Rightarrow> user list \<times> string option set" where
  "add_member (Embedded u) (users, userIds) =
     (if user_key u \<notin> userIds then (users @ [u], insert (user_key u) userIds)
      else (users, userIds))"
| "add_member (Bare _) (users, userIds) = (users, userIds)"

text \<open>\<^verbatim>\<open>if (Array.isArray(ms)) ms.forEach(...)\<close>\<close>

definition add_members ::
  "member_ref list option \<Rightarrow> user list \<times> string option set \<Rightarrow> user list \<times> string option set" where
  "add_members ms acc = (case ms of None \<Rightarrow> acc | Some xs \<Rightarrow> fold add_member xs acc)"

definition getMemberUsers :: "project \<Rightarrow> user list" where
  "getMemberUsers p =
     fst (add_members (team p) (add_members (admins p) (add_member (owner p) ([], {}))))"

subsection \<open>The members the page could show\<close>

text \<open>
  The membership references of a project in the order owner, admins, team, and the
  embedded records among them.
\<close>

definition all_refs :: "project \<Rightarrow> member_ref list" where
  "all_refs p =
     owner p # (case admins p of None \<Rightarrow> [] | Some xs \<Rightarrow> xs)
             @ (case team p of None \<Rightarrow> [] | Some xs \<Rightarrow> xs)"

fun embedded_users :: "member_ref list \<Rightarrow> user list" where
  "embedded_users [] = []"
| "embedded_users (Embedded u # ms) = u # embedded_users ms"
| "embedded_users (Bare _ # ms) = embedded_users ms"

text \<open>
  Deduplication as the specification words it: go through the records in order, keep a
  record unless its identifier has been seen, and remember the identifier of every record
  kept.
\<close>

fun first_seen :: "string option set \<Rightarrow> user list \<Rightarrow> user list" where
  "first_seen seen [] = []"
| "first_seen seen (u # us) =
     (if user_key u \<in> seen then first_seen seen us
      else u # first_seen (insert (user_key u) seen) us)"

definition memberUsers_spec :: "project \<Rightarrow> user list" where
  "memberUsers_spec p = first_seen {} (embedded_users (all_refs p))"

text \<open>Applying a function to every embedded record of a project.\<close>

fun map_ref :: "(user \<Rightarrow> user) \<Rightarrow> member_ref \<Rightarrow> member_ref" where
  "map_ref f (Embedded u) = Embedded (f u)"
| "map_ref f (Bare s) = Bare s"

definition map_project_users :: "(user \<Rightarrow> user) \<Rightarrow> project \<Rightarrow> project" where
  "map_project_users f p =
     p\<lparr>owner := map_ref f (owner p),
       admins := map_option (map (map_ref f)) (admins p),
       team := map_option (map (map_ref f)) (team p)\<rparr>"

section \<open>Sample data\<close>

text \<open>
  A user whose two identifier fields disagree, two more users, and a project in which the
  owner is also listed among the admins and in the team.
\<close>

definition alice :: user where
  "alice = \<lparr>uscore_id = Some ''u1'', plain_id = Some ''u7'', display = ''Alice''\<rparr>"

definition bob :: user where
  "bob = \<lparr>uscore_id = None, plain_id = Some ''u2'', display = ''Bob''\<rparr>"

definition carol :: user where
  "carol = \<lparr>uscore_id = Some ''u3'', plain_id = None, display = ''Carol''\<rparr>"

definition bob_again :: user where
  "bob_again = \<lparr>uscore_id = Some ''u2'', plain_id = Some ''u9'', display = ''Robert''\<rparr>"

definition sample_project :: project where
  "sample_project =
     \<lparr>proj_uscore_id = ''p1'', name = ''Demo'', description = None, status = Actif,
      owner = Embedded alice,
      admins = Some [Bare ''u1'', Embedded bob, Bare ''u5''],
      team = Some [Embedded alice, Embedded carol, Embedded bob_again, Bare ''u6'']\<rparr>"

text \<open>The project of the scenario of the specification: bare identifiers only.\<close>

definition scenario_project :: project where
  "scenario_project =
     \<lparr>proj_uscore_id = ''p1'', name = ''P'', description = None, status = Actif,
      owner = Bare ''u1'', admins = Some [], team = Some [Bare ''u2'']\<rparr>"

definition accepting_service :: "project \<Rightarrow> projectService" where
  "accepting_service p =
     \<lparr>getById = (\<lambda>_. Inr p), update_svc = (\<lambda>_ _. Inr ()), delete_svc = (\<lambda>_. Inr ())\<rparr>"

definition rejecting_service :: "api_error \<Rightarrow> projectService" where
  "rejecting_service e =
     \<lparr>getById = (\<lambda>_. Inl e), update_svc = (\<lambda>_ _. Inl e), delete_svc = (\<lambda>_. Inl e)\<rparr>"

definition not_found :: api_error where
  "not_found = ApiError (Some (Response (Some (RespData (Some ''Projet introuvable'')))))"

definition network_error :: api_error where
  "network_error = ApiError None"

text \<open>A page on which \<open>p\<close> has been loaded for a user with role \<open>r\<close>.\<close>

definition loaded_page :: "project \<Rightarrow> role option \<Rightarrow> page" where
  "loaded_page p r = initial_page\<lparr>project := Some p, isLoading := False, userRole := r\<rparr>"

text \<open>A copy of a user without the field \<^verbatim>\<open>id\<close>, when the field \<^verbatim>\<open>_id\<close> is truthy.\<close>

definition drop_plain_id :: "user \<Rightarrow> user" where
  "drop_plain_id u = (if truthy (uscore_id u) then u\<lparr>plain_id := None\<rparr> else u)"

section \<open>Observing a handler\<close>

text \<open>The effects that a handler added to the log, given the page before and after it.\<close>

definition new_events :: "page \<Rightarrow> page \<Rightarrow> event list" where
  "new_events s s' = drop (length (events s)) (events s')"

section \<open>Auxiliary facts\<close>

subsection \<open>The loop of getMemberUsers\<close>

text \<open>
  Running the loop body over a list of references appends to \<open>users\<close> the records that
  \<open>first_seen\<close> keeps, and adds their identifiers to \<open>userIds\<close>.
\<close>

lemma fold_add_member:
  "fold add_member ms (us, K) =
     (us @ first_seen K (embedded_users ms), K \<union> user_key ` set (embedded_users ms))"
proof (induction ms arbitrary: us K)
  case Nil
  then show ?case by simp
next
  case (Cons m ms)
  then show ?case by (cases m) auto
qed

lemma first_seen_append:
  "first_seen K (xs @ ys) = first_seen K xs @ first_seen (K \<union> user_key ` set xs) ys"
  by (induction xs arbitrary: K) (auto simp: insert_absorb)

lemma embedded_users_append:
  "embedded_users (xs @ ys) = embedded_users xs @ embedded_users ys"
  by (induction xs rule: embedded_users.induct) auto

lemma getMemberUsers_refines: "getMemberUsers p = memberUsers_spec p"
  by (cases "owner p")
    (auto simp: getMemberUsers_def memberUsers_spec_def all_refs_def add_members_def
      fold_add_member first_seen_append embedded_users_append split: option.splits)

lemma first_seen_keys: "user_key ` set (first_seen K xs) = user_key ` set xs - K"
  by (induction xs arbitrary: K) auto

lemma first_seen_distinct: "distinct (map user_key (first_seen K xs))"
  by (induction xs arbitrary: K) (auto simp: first_seen_keys)

lemma first_seen_subseq: "subseq (first_seen K xs) xs"
  by (induction xs arbitrary: K) auto

text \<open>Every record kept is the first one of the input that carries its identifier.\<close>

lemma first_seen_find:
  "u \<in> set (first_seen K xs) \<Longrightarrow> find (\<lambda>v. user_key v = user_key u) xs = Some u"
proof (induction xs arbitrary: K)
  case Nil
  then show ?case by simp
next
  case (Cons x xs)
  show ?case
  proof (cases "user_key x \<in> K")
    case True
    with Cons.prems have in_rest: "u \<in> set (first_seen K xs)" by simp
    then have "user_key u \<in> user_key ` set xs - K"
      using first_seen_keys [of K xs] by blast
    with True have "user_key x \<noteq> user_key u" by auto
    with Cons.IH [OF in_rest] show ?thesis by simp
  next
    case False
    show ?thesis
    proof (cases "u = x")
      case True
      then show ?thesis by simp
    next
      case neq: False
      with False Cons.prems have in_rest: "u \<in> set (first_seen (insert (user_key x) K) xs)"
        by simp
      then have "user_key u \<in> user_key ` set xs - insert (user_key x) K"
        using first_seen_keys [of "insert (user_key x) K" xs] by blast
      then have "user_key x \<noteq> user_key u" by auto
      with Cons.IH [OF in_rest] show ?thesis by simp
    qed
  qed
qed

subsection \<open>The two outcomes of loadProject\<close>

lemma some_member_iff:
  "some_member ms U = (\<exists>xs. ms = Some xs \<and> (\<exists>m \<in> set xs. normalize_ref m = Some U))"
  by (cases ms) (auto simp: some_member_def list_ex_iff)

lemma loadProject_resolved:
  "i \<noteq> [] \<Longrightarrow> getById svc i = Inr P \<Longrightarrow>
   loadProject svc U (Some i) s =
     s\<lparr>project := Some P, isLoading := False, userRole := derive_role P U,
       events := events s @ [CallGetById i]\<rparr>"
  by (simp add: loadProject_def emit_def)

lemma loadProject_rejected:
  "i \<noteq> [] \<Longrightarrow> getById svc i = Inl err \<Longrightarrow>
   loadProject svc U (Some i) s =
     s\<lparr>isLoading := False,
       events := events s @ [CallGetById i, ShowToast load_error_toast, ConsoleError err,
                             Navigate ''/'']\<rparr>"
  by (simp add: loadProject_def emit_def)

section \<open>Role derivation\<close>

text \<open>
  C1. Whenever \<^verbatim>\<open>loadProject\<close> runs with a present identifier and the request resolves
  with a project \<open>P\<close>, the role it stores for the current user \<open>U\<close> is one of owner,
  admin, team and none (\<open>None\<close>), the first that applies in this order: owner if the
  normalised owner equals \<open>U\<close>, also when \<open>U\<close> is listed among the admins or in the team;
  else admin if \<open>admins\<close> is an array with an element whose normalised identifier is \<open>U\<close>;
  else team if \<open>team\<close> is an array with such an element; else none.
\<close>

theorem loadProject_role_priority:
  assumes "ident = Some i" and "i \<noteq> []" and "getById svc i = Inr P"
  shows "userRole (loadProject svc U ident s) =
           (if normalize_ref (owner P) = Some U then Some Owner
            else if \<exists>xs. admins P = Some xs \<and> (\<exists>m \<in> set xs. normalize_ref m = Some U)
              then Some Admin
            else if \<exists>xs. team P = Some xs \<and> (\<exists>m \<in> set xs. normalize_ref m = Some U)
              then Some Team
            else None)
         \<and> userRole (loadProject svc U ident s) \<in> {Some Owner, Some Admin, Some Team, None}
         \<and> (normalize_ref (owner P) = Some U \<longrightarrow>
              userRole (loadProject svc U ident s) = Some Owner)"
proof -
  have load: "userRole (loadProject svc U ident s) = derive_role P U"
    using assms by (simp add: loadProject_resolved)
  have chain: "derive_role P U =
           (if normalize_ref (owner P) = Some U then Some Owner
            else if \<exists>xs. admins P = Some xs \<and> (\<exists>m \<in> set xs. normalize_ref m = Some U)
              then Some Admin
            else if \<exists>xs. team P = Some xs \<and> (\<exists>m \<in> set xs. normalize_ref m = Some U)
              then Some Team
            else None)"
    unfolding derive_role_def Let_def some_member_iff by (simp add: eq_commute)
  show ?thesis unfolding load chain by simp
qed

theorem loadProject_role_priority_witness:
  "''p1'' \<noteq> [] \<and> getById (accepting_service sample_project) ''p1'' = Inr sample_project
   \<and> normalize_ref (owner sample_project) = Some ''u1''
   \<and> Bare ''u1'' \<in> set (the (admins sample_project))
   \<and> userRole (loadProject (accepting_service sample_project) ''u1'' (Some ''p1'') initial_page)
       = Some Owner"
proof -
  have h1: "Some ''p1'' = Some ''p1''" by simp
  have h2: "''p1'' \<noteq> []" by simp
  have h3: "getById (accepting_service sample_project) ''p1'' = Inr sample_project"
    by (simp add: accepting_service_def)
  have own: "normalize_ref (owner sample_project) = Some ''u1''"
    by (simp add: sample_project_def alice_def user_key_def js_or_def)
  have adm: "Bare ''u1'' \<in> set (the (admins sample_project))"
    by (simp add: sample_project_def)
  from loadProject_role_priority [OF h1 h2 h3, of "''u1''" initial_page] own
  have "userRole (loadProject (accepting_service sample_project) ''u1'' (Some ''p1'') initial_page)
       = Some Owner" by simp
  with h2 h3 own adm show ?thesis by simp
qed

section \<open>Permission flags\<close>

lemmas flag_defs =
  canEditProject_def canDeleteProject_def canManageTeam_def canCreateTicket_def
  canChangeStatus_def isOwner_def

text \<open>
  C2. Each of the five permission flags \<open>canEditProject\<close>, \<open>canDeleteProject\<close>,
  \<open>canManageTeam\<close>, \<open>canCreateTicket\<close> and \<open>canChangeStatus\<close> is true exactly when the
  role is owner; for the roles admin, team and none every flag is false.
\<close>

theorem flags_iff_owner:
  "canEditProject s = (userRole s = Some Owner)
   \<and> canDeleteProject s = (userRole s = Some Owner)
   \<and> canManageTeam s = (userRole s = Some Owner)
   \<and> canCreateTicket s = (userRole s = Some Owner)
   \<and> canChangeStatus s = (userRole s = Some Owner)
   \<and> (userRole s \<in> {Some Admin, Some Team, None} \<longrightarrow>
        \<not> canEditProject s \<and> \<not> canDeleteProject s \<and> \<not> canManageTeam s
        \<and> \<not> canCreateTicket s \<and> \<not> canChangeStatus s)"
  by (auto simp: flag_defs)

theorem flags_iff_owner_witness:
  "userRole (loaded_page sample_project (Some Admin)) \<in> {Some Admin, Some Team, None}
   \<and> \<not> canEditProject (loaded_page sample_project (Some Admin))
   \<and> \<not> canDeleteProject (loaded_page sample_project (Some Admin))
   \<and> \<not> canManageTeam (loaded_page sample_project (Some Admin))
   \<and> \<not> canCreateTicket (loaded_page sample_project (Some Admin))
   \<and> \<not> canChangeStatus (loaded_page sample_project (Some Admin))
   \<and> canChangeStatus (loaded_page sample_project (Some Owner))"
proof -
  have r: "userRole (loaded_page sample_project (Some Admin)) \<in> {Some Admin, Some Team, None}"
    by (simp add: loaded_page_def)
  have o: "userRole (loaded_page sample_project (Some Owner)) = Some Owner"
    by (simp add: loaded_page_def)
  from flags_iff_owner [of "loaded_page sample_project (Some Admin)"] r
    flags_iff_owner [of "loaded_page sample_project (Some Owner)"] o
  show ?thesis by blast
qed


section \<open>Changing the status\<close>

text \<open>
  C3. When \<^verbatim>\<open>handleStatusChange\<close> runs while \<open>canChangeStatus\<close> is false, whatever
  the requested status, all it does is show the access-denied notification: the update
  collaborator is not called and the page, the local project included, is as before.
\<close>

theorem handleStatusChange_denied:
  assumes "\<not> canChangeStatus s"
  shows "handleStatusChange svc st s = s\<lparr>events := events s @ [ShowToast status_denied_toast]\<rparr>
         \<and> new_events s (handleStatusChange svc st s) = [ShowToast status_denied_toast]
         \<and> title status_denied_toast = acces_refuse
         \<and> (\<forall>pid st'. CallUpdate pid st' \<notin> set (new_events s (handleStatusChange svc st s)))
         \<and> project (handleStatusChange svc st s) = project s"
  using assms
  by (auto simp: handleStatusChange_def emit_def new_events_def status_denied_toast_def
      split: option.splits)

theorem handleStatusChange_denied_witness:
  "\<not> canChangeStatus (loaded_page sample_project (Some Admin))
   \<and> events (handleStatusChange (accepting_service sample_project) Archive
        (loaded_page sample_project (Some Admin))) = [ShowToast status_denied_toast]
   \<and> project (handleStatusChange (accepting_service sample_project) Archive
        (loaded_page sample_project (Some Admin))) = Some sample_project"
proof -
  have h: "\<not> canChangeStatus (loaded_page sample_project (Some Admin))"
    by (simp add: flag_defs loaded_page_def)
  from handleStatusChange_denied [OF h, of "accepting_service sample_project" Archive] h
  show ?thesis by (simp add: loaded_page_def initial_page_def)
qed

section \<open>Deleting the project\<close>

text \<open>
  C4. When \<^verbatim>\<open>handleDelete\<close> runs while \<open>canDeleteProject\<close> is false, all it does is
  show the access-denied notification: the delete collaborator is not called and the page
  does not navigate.
\<close>

theorem handleDelete_denied:
  assumes "\<not> canDeleteProject s"
  shows "handleDelete svc s = s\<lparr>events := events s @ [ShowToast delete_denied_toast]\<rparr>
         \<and> new_events s (handleDelete svc s) = [ShowToast delete_denied_toast]
         \<and> title delete_denied_toast = acces_refuse
         \<and> (\<forall>pid. CallDelete pid \<notin> set (new_events s (handleDelete svc s)))
         \<and> (\<forall>path. Navigate path \<notin> set (new_events s (handleDelete svc s)))"
  using assms
  by (auto simp: handleDelete_def emit_def new_events_def delete_denied_toast_def
      split: option.splits)

theorem handleDelete_denied_witness:
  "\<not> canDeleteProject (loaded_page sample_project (Some Team))
   \<and> events (handleDelete (accepting_service sample_project)
        (loaded_page sample_project (Some Team))) = [ShowToast delete_denied_toast]"
proof -
  have h: "\<not> canDeleteProject (loaded_page sample_project (Some Team))"
    by (simp add: flag_defs loaded_page_def)
  from handleDelete_denied [OF h, of "accepting_service sample_project"] h
  show ?thesis by (simp add: loaded_page_def initial_page_def)
qed

section \<open>Outcomes of a status update\<close>

text \<open>
  The message of an error notification: the message of the server when the error carries
  one that is not empty, the fallback otherwise.
\<close>

lemma errorMessage_cases:
  "errorMessage err fallback =
     (case server_message err of
        None \<Rightarrow> fallback
      | Some m \<Rightarrow> if m = [] then fallback else m)"
  by (simp add: errorMessage_def js_or_def split: option.splits)

text \<open>
  C5. When the update request made by \<^verbatim>\<open>handleStatusChange\<close> is rejected, the local
  project, its status included, is the one from before the call and so is the rest of the
  page; the only notification is an error notification, which carries the message of the
  server if there is one and a generic message otherwise.
\<close>

theorem handleStatusChange_rejected:
  assumes "project s = Some p" and "canChangeStatus s"
    and "update_svc svc (proj_uscore_id p) st = Inl err"
  shows "project (handleStatusChange svc st s) = Some p
         \<and> project (handleStatusChange svc st s) = project s
         \<and> handleStatusChange svc st s = s\<lparr>events := events (handleStatusChange svc st s)\<rparr>
         \<and> new_events s (handleStatusChange svc st s) =
             [CallUpdate (proj_uscore_id p) st,
              ShowToast \<lparr>title = ''Erreur'',
                description =
                  (case server_message err of
                     None \<Rightarrow> ''Impossible de modifier le statut''
                   | Some m \<Rightarrow> if m = [] then ''Impossible de modifier le statut'' else m),
                destructive = True\<rparr>]"
  using assms
  by (simp add: handleStatusChange_def emit_def new_events_def error_toast_def
      errorMessage_cases)

theorem handleStatusChange_rejected_witness:
  "project (loaded_page sample_project (Some Owner)) = Some sample_project
   \<and> canChangeStatus (loaded_page sample_project (Some Owner))
   \<and> update_svc (rejecting_service not_found) (proj_uscore_id sample_project) Archive
       = Inl not_found
   \<and> project (handleStatusChange (rejecting_service not_found) Archive
        (loaded_page sample_project (Some Owner))) = Some sample_project
   \<and> events (handleStatusChange (rejecting_service not_found) Archive
        (loaded_page sample_project (Some Owner))) =
       [CallUpdate ''p1'' Archive,
        ShowToast \<lparr>title = ''Erreur'', description = ''Projet introuvable'',
                   destructive = True\<rparr>]"
proof -
  have h1: "project (loaded_page sample_project (Some Owner)) = Some sample_project"
    by (simp add: loaded_page_def)
  have h2: "canChangeStatus (loaded_page sample_project (Some Owner))"
    by (simp add: flag_defs loaded_page_def)
  have h3: "update_svc (rejecting_service not_found) (proj_uscore_id sample_project) Archive
       = Inl not_found"
    by (simp add: rejecting_service_def)
  have pid: "proj_uscore_id sample_project = ''p1''" by (simp add: sample_project_def)
  have msg: "server_message not_found = Some ''Projet introuvable''"
    by (simp add: server_message_def not_found_def)
  have ev: "events (loaded_page sample_project (Some Owner)) = []"
    by (simp add: loaded_page_def initial_page_def)
  from handleStatusChange_rejected [OF h1 h2 h3] h1 h2 h3
  show ?thesis by (simp add: new_events_def ev pid msg)
qed

text \<open>
  C6. When the update request made by \<^verbatim>\<open>handleStatusChange\<close> resolves, the status of
  the local project is the requested one, every other field of the local project is as
  before, and no \<^verbatim>\<open>getById\<close> request is sent.
\<close>

theorem handleStatusChange_resolved:
  assumes "project s = Some p" and "canChangeStatus s"
    and "update_svc svc (proj_uscore_id p) st = Inr ()"
  shows "project (handleStatusChange svc st s) = Some (p\<lparr>status := st\<rparr>)
         \<and> (\<exists>q. project (handleStatusChange svc st s) = Some q \<and> status q = st
               \<and> proj_uscore_id q = proj_uscore_id p \<and> name q = name p
               \<and> project.description q = project.description p \<and> owner q = owner p
               \<and> admins q = admins p \<and> team q = team p)
         \<and> new_events s (handleStatusChange svc st s) =
             [CallUpdate (proj_uscore_id p) st, ShowToast (status_changed_toast st)]
         \<and> (\<forall>i. CallGetById i \<notin> set (new_events s (handleStatusChange svc st s)))
         \<and> handleStatusChange svc st s =
             s\<lparr>project := Some (p\<lparr>status := st\<rparr>),
               events := events (handleStatusChange svc st s)\<rparr>"
  using assms
  by (simp add: handleStatusChange_def emit_def new_events_def)

theorem handleStatusChange_resolved_witness:
  "project (loaded_page scenario_project (Some Owner)) = Some scenario_project
   \<and> canChangeStatus (loaded_page scenario_project (Some Owner))
   \<and> update_svc (accepting_service scenario_project) (proj_uscore_id scenario_project) Archive
       = Inr ()
   \<and> project (handleStatusChange (accepting_service scenario_project) Archive
        (loaded_page scenario_project (Some Owner))) =
       Some \<lparr>proj_uscore_id = ''p1'', name = ''P'', description = None, status = Archive,
             owner = Bare ''u1'', admins = Some [], team = Some [Bare ''u2'']\<rparr>"
proof -
  have h1: "project (loaded_page scenario_project (Some Owner)) = Some scenario_project"
    by (simp add: loaded_page_def)
  have h2: "canChangeStatus (loaded_page scenario_project (Some Owner))"
    by (simp add: flag_defs loaded_page_def)
  have h3: "update_svc (accepting_service scenario_project) (proj_uscore_id scenario_project)
       Archive = Inr ()"
    by (simp add: accepting_service_def)
  from handleStatusChange_resolved [OF h1 h2 h3] h1 h2 h3
  show ?thesis by (simp add: scenario_project_def)
qed

section \<open>The member list\<close>

lemma set_embedded_users: "set (embedded_users ms) = {u. Embedded u \<in> set ms}"
  by (induction ms rule: embedded_users.induct) auto

text \<open>
  C7. \<^verbatim>\<open>getMemberUsers\<close> returns the embedded records of owner, admins and team, in
  this order, without those whose normalised identifier an earlier record has: no two
  entries have the same normalised identifier, every entry is an embedded record of the
  project (a bare identifier is never an entry), the entries keep the order owner, admins,
  team, an embedded owner comes first, and every entry is the first record of the project
  with its identifier.
\<close>

theorem getMemberUsers_dedup_order:
  "getMemberUsers p = memberUsers_spec p
   \<and> distinct (map user_key (getMemberUsers p))
   \<and> subseq (getMemberUsers p) (embedded_users (all_refs p))
   \<and> (\<forall>u \<in> set (getMemberUsers p). Embedded u \<in> set (all_refs p))
   \<and> user_key ` set (getMemberUsers p) = user_key ` set (embedded_users (all_refs p))
   \<and> (\<forall>u \<in> set (getMemberUsers p).
         find (\<lambda>v. user_key v = user_key u) (embedded_users (all_refs p)) = Some u)
   \<and> (\<forall>u. owner p = Embedded u \<longrightarrow> getMemberUsers p \<noteq> [] \<and> hd (getMemberUsers p) = u)"
proof -
  let ?emb = "embedded_users (all_refs p)"
  have eq: "getMemberUsers p = first_seen {} ?emb"
    by (simp add: getMemberUsers_refines memberUsers_spec_def)
  have a: "distinct (map user_key (getMemberUsers p))"
    unfolding eq by (rule first_seen_distinct)
  have b: "subseq (getMemberUsers p) ?emb"
    unfolding eq by (rule first_seen_subseq)
  have c: "user_key ` set (getMemberUsers p) = user_key ` set ?emb"
    unfolding eq by (simp add: first_seen_keys)
  have d: "\<forall>u \<in> set (getMemberUsers p). find (\<lambda>v. user_key v = user_key u) ?emb = Some u"
    unfolding eq by (blast intro: first_seen_find)
  have e: "\<forall>u \<in> set (getMemberUsers p). Embedded u \<in> set (all_refs p)"
  proof
    fix u assume "u \<in> set (getMemberUsers p)"
    with d have "find (\<lambda>v. user_key v = user_key u) ?emb = Some u" by blast
    then have "u \<in> set ?emb" by (auto simp: find_Some_iff)
    then show "Embedded u \<in> set (all_refs p)" by (simp add: set_embedded_users)
  qed
  have f: "\<forall>u. owner p = Embedded u \<longrightarrow> getMemberUsers p \<noteq> [] \<and> hd (getMemberUsers p) = u"
    unfolding eq by (auto simp: all_refs_def)
  from getMemberUsers_refines a b c d e f show ?thesis by blast
qed


lemma getMemberUsers_sample: "getMemberUsers sample_project = [alice, bob, carol]"
  by (simp add: getMemberUsers_def add_members_def sample_project_def alice_def bob_def
      carol_def bob_again_def user_key_def js_or_def)

theorem getMemberUsers_dedup_order_witness:
  "getMemberUsers sample_project = [alice, bob, carol]
   \<and> alice \<in> set (getMemberUsers sample_project)
   \<and> owner sample_project = Embedded alice
   \<and> hd (getMemberUsers sample_project) = alice
   \<and> Embedded alice \<in> set (all_refs sample_project)
   \<and> find (\<lambda>v. user_key v = user_key alice) (embedded_users (all_refs sample_project))
       = Some alice"
proof -
  have mem: "alice \<in> set (getMemberUsers sample_project)"
    by (simp add: getMemberUsers_sample)
  have own: "owner sample_project = Embedded alice"
    by (simp add: sample_project_def)
  from getMemberUsers_dedup_order [of sample_project] mem own getMemberUsers_sample
  show ?thesis by blast
qed

section \<open>Loading\<close>

text \<open>
  C8. When \<^verbatim>\<open>loadProject\<close> runs with a present identifier and the \<^verbatim>\<open>getById\<close> request
  is rejected, then afterwards the loading flag is false, the local project is the one from
  before (null if it was null), an error notification has been shown and the page has
  navigated to \<^verbatim>\<open>/\<close>.
\<close>

theorem loadProject_failure:
  assumes "ident = Some i" and "i \<noteq> []" and "getById svc i = Inl err"
  shows "isLoading (loadProject svc U ident s) = False
         \<and> project (loadProject svc U ident s) = project s
         \<and> (project s = None \<longrightarrow> project (loadProject svc U ident s) = None)
         \<and> userRole (loadProject svc U ident s) = userRole s
         \<and> new_events s (loadProject svc U ident s) =
             [CallGetById i, ShowToast load_error_toast, ConsoleError err, Navigate ''/'']
         \<and> title load_error_toast = ''Erreur'' \<and> destructive load_error_toast"
  using assms by (simp add: loadProject_rejected new_events_def load_error_toast_def)

theorem loadProject_failure_witness:
  "''p1'' \<noteq> [] \<and> getById (rejecting_service not_found) ''p1'' = Inl not_found
   \<and> project initial_page = None
   \<and> isLoading (loadProject (rejecting_service not_found) ''u1'' (Some ''p1'') initial_page)
       = False
   \<and> project (loadProject (rejecting_service not_found) ''u1'' (Some ''p1'') initial_page)
       = None
   \<and> events (loadProject (rejecting_service not_found) ''u1'' (Some ''p1'') initial_page) =
       [CallGetById ''p1'', ShowToast load_error_toast, ConsoleError not_found, Navigate ''/'']"
proof -
  have h1: "Some ''p1'' = Some ''p1''" by simp
  have h2: "''p1'' \<noteq> []" by simp
  have h3: "getById (rejecting_service not_found) ''p1'' = Inl not_found"
    by (simp add: rejecting_service_def)
  have p0: "project initial_page = None" by (simp add: initial_page_def)
  have e0: "events initial_page = []" by (simp add: initial_page_def)
  from loadProject_failure [OF h1 h2 h3, of "''u1''" initial_page] h2 h3 p0
  show ?thesis by (simp add: new_events_def e0)
qed

text \<open>
  C9, as stated: every run of \<^verbatim>\<open>loadProject\<close> clears the loading flag, whatever the
  identifier. On a freshly mounted page, a run with an absent or an empty identifier
  leaves the flag set.
\<close>

theorem loadProject_absent_id_counterexample:
  "\<not> (isLoading (loadProject (accepting_service sample_project) ''u1'' None initial_page)
        = False)
   \<and> \<not> (isLoading (loadProject (accepting_service sample_project) ''u1'' (Some [])
            initial_page) = False)"
  by (simp add: loadProject_def initial_page_def)

text \<open>
  C9, amended. Every run of \<^verbatim>\<open>loadProject\<close> with a present (truthy) identifier clears
  the loading flag, whether the request resolves or is rejected; a run with an absent or
  empty identifier returns at the guard and leaves the page, the loading flag included,
  as it was.
\<close>

theorem loadProject_clears_loading:
  "(truthy ident \<longrightarrow> isLoading (loadProject svc U ident s) = False)
   \<and> (\<not> truthy ident \<longrightarrow> loadProject svc U ident s = s)"
  by (cases ident) (auto simp: loadProject_def Let_def split: sum.splits)

theorem loadProject_clears_loading_witness:
  "truthy (Some ''p1'') \<and> \<not> truthy None
   \<and> isLoading (loadProject (accepting_service sample_project) ''u1'' (Some ''p1'')
        initial_page) = False
   \<and> isLoading (loadProject (rejecting_service network_error) ''u1'' (Some ''p1'')
        initial_page) = False
   \<and> loadProject (accepting_service sample_project) ''u1'' None initial_page = initial_page"
proof -
  have t: "truthy (Some ''p1'')" by simp
  have n: "\<not> truthy None" by simp
  from loadProject_clears_loading [of "Some ''p1''" "accepting_service sample_project" "''u1''" initial_page]
    loadProject_clears_loading [of "Some ''p1''" "rejecting_service network_error" "''u1''" initial_page]
    loadProject_clears_loading [of None "accepting_service sample_project" "''u1''" initial_page]
    t n
  show ?thesis by blast
qed

section \<open>Identifier normalisation\<close>

text \<open>
  A function on user records that keeps the normalised identifier of every record changes
  neither the role derived from a project nor, up to itself, the member list.
\<close>

lemma normalize_map_ref:
  "(\<And>u. user_key (f u) = user_key u) \<Longrightarrow> normalize_ref (map_ref f m) = normalize_ref m"
  by (cases m) simp_all

lemma some_member_map:
  assumes "\<And>u. user_key (f u) = user_key u"
  shows "some_member (map_option (map (map_ref f)) ms) U = some_member ms U"
  using assms by (cases ms) (simp_all add: some_member_def list_ex_iff normalize_map_ref)

lemma derive_role_map:
  assumes "\<And>u. user_key (f u) = user_key u"
  shows "derive_role (map_project_users f P) U = derive_role P U"
  using assms
  by (simp add: derive_role_def map_project_users_def some_member_map normalize_map_ref)

lemma embedded_users_map: "embedded_users (map (map_ref f) ms) = map f (embedded_users ms)"
  by (induction ms rule: embedded_users.induct) simp_all

lemma first_seen_map:
  assumes "\<And>u. user_key (f u) = user_key u"
  shows "first_seen K (map f xs) = map f (first_seen K xs)"
  using assms by (induction xs arbitrary: K) simp_all

lemma all_refs_map: "all_refs (map_project_users f p) = map (map_ref f) (all_refs p)"
  by (simp add: all_refs_def map_project_users_def split: option.splits)

lemma getMemberUsers_map:
  assumes "\<And>u. user_key (f u) = user_key u"
  shows "getMemberUsers (map_project_users f P) = map f (getMemberUsers P)"
  using assms
  by (simp add: getMemberUsers_refines memberUsers_spec_def all_refs_map embedded_users_map
      first_seen_map)

text \<open>
  C10. The comparable key of an embedded record is its \<^verbatim>\<open>_id\<close> when that is truthy and
  its \<^verbatim>\<open>id\<close> otherwise, so that the \<^verbatim>\<open>id\<close> of a record with a truthy \<^verbatim>\<open>_id\<close> does not
  matter; role derivation and the deduplication of the member list see an embedded owner,
  admin or team record through this key alone.
\<close>

theorem user_key_prefers_uscore_id:
  "(truthy (uscore_id u) \<longrightarrow> user_key u = uscore_id u)
   \<and> (\<not> truthy (uscore_id u) \<longrightarrow> user_key u = plain_id u)
   \<and> (truthy (uscore_id u) \<longrightarrow> user_key (u\<lparr>plain_id := x\<rparr>) = user_key u)
   \<and> normalize_ref (Embedded u) = user_key u
   \<and> ((\<forall>v. user_key (f v) = user_key v) \<longrightarrow>
        derive_role (map_project_users f P) U = derive_role P U
        \<and> getMemberUsers (map_project_users f P) = map f (getMemberUsers P))"
  by (simp add: user_key_def js_or_def derive_role_map getMemberUsers_map)


theorem user_key_prefers_uscore_id_witness:
  "truthy (uscore_id alice) \<and> uscore_id alice \<noteq> plain_id alice
   \<and> user_key alice = Some ''u1''
   \<and> \<not> truthy (uscore_id bob) \<and> user_key bob = Some ''u2''
   \<and> (\<forall>v. user_key (drop_plain_id v) = user_key v)
   \<and> derive_role (map_project_users drop_plain_id sample_project) ''u1''
       = derive_role sample_project ''u1''
   \<and> getMemberUsers (map_project_users drop_plain_id sample_project)
       = map drop_plain_id (getMemberUsers sample_project)"
proof -
  have ta: "truthy (uscore_id alice)" by (simp add: alice_def)
  have da: "uscore_id alice \<noteq> plain_id alice" by (simp add: alice_def)
  have ia: "uscore_id alice = Some ''u1''" by (simp add: alice_def)
  have tb: "\<not> truthy (uscore_id bob)" by (simp add: bob_def)
  have ib: "plain_id bob = Some ''u2''" by (simp add: bob_def)
  have pres: "\<forall>v. user_key (drop_plain_id v) = user_key v"
    by (simp add: drop_plain_id_def user_key_def js_or_def)
  from user_key_prefers_uscore_id [of alice None drop_plain_id sample_project "''u1''"]
    user_key_prefers_uscore_id [of bob None drop_plain_id sample_project "''u1''"]
    ta da ia tb ib pres
  show ?thesis by simp
qed

end
